theory Spec2Isabelle
  imports Main
begin

section \<open>PyKIDS backend: the progress endpoint and its access guard\<close>

text \<open>
  The development embeds \<^verbatim>\<open>src/app.py\<close> (and \<^verbatim>\<open>src/pykids-backend/app.py\<close>, whose
  two profile handlers are the same text). The values that travel through the body of a
  progress request are JSON values: \<^verbatim>\<open>None\<close>, booleans, integers, strings, lists and
  objects. Floating-point numbers are outside the model. The column \<^verbatim>\<open>progress\<close> holds an
  object of objects of objects, as the \<^verbatim>\<open>INSERT\<close> and the \<^verbatim>\<open>UPDATE\<close> of the program write it.
\<close>

subsection \<open>Values and exceptions\<close>

datatype pyval =
    PNone
  | PBool bool
  | PInt int
  | PStr string
  | PList "pyval list"
  | PDict "(string \<times> pyval) list"

datatype error =
    NameError string
  | TypeError
  | AttributeError
  | KeyError
  | IndexError
  | ValueError
  | InvalidIdToken

text \<open>
  Python's truth value: \<^verbatim>\<open>None\<close>, \<^verbatim>\<open>False\<close>, \<^verbatim>\<open>0\<close>, \<^verbatim>\<open>''\<close>, \<^verbatim>\<open>[]\<close> and \<^verbatim>\<open>{}\<close> are false.
\<close>

fun truthy :: "pyval \<Rightarrow> bool" where
  "truthy PNone = False"
| "truthy (PBool b) = b"
| "truthy (PInt n) = (n \<noteq> 0)"
| "truthy (PStr s) = (s \<noteq> [])"
| "truthy (PList xs) = (xs \<noteq> [])"
| "truthy (PDict kvs) = (kvs \<noteq> [])"

text \<open>A list or a dictionary cannot be the key of a dictionary: hashing it raises.\<close>

fun hashable :: "pyval \<Rightarrow> bool" where
  "hashable (PList xs) = False"
| "hashable (PDict kvs) = False"
| "hashable v = True"

text \<open>
  \<^verbatim>\<open>user['total_score'] + new_score\<close>: the left operand is the integer column. A boolean
  is an integer in Python (\<^verbatim>\<open>True\<close> is 1); any other value on the right raises
  \<^verbatim>\<open>TypeError\<close>.
\<close>

fun py_add_int :: "int \<Rightarrow> pyval \<Rightarrow> error + int" where
  "py_add_int n (PInt k) = Inr (n + k)"
| "py_add_int n (PBool b) = Inr (n + (if b then 1 else 0))"
| "py_add_int n v = Inl TypeError"

subsection \<open>Dictionaries\<close>

text \<open>
  A dictionary is the list of its items in insertion order. \<^verbatim>\<open>d.get(k, default)\<close> reads
  it; \<^verbatim>\<open>d[k] = v\<close> replaces the value of a key in place and appends a new key at the end.
\<close>

definition dict_get :: "('k \<times> 'v) list \<Rightarrow> 'k \<Rightarrow> 'v \<Rightarrow> 'v" where
  "dict_get d k dflt = (case map_of d k of None \<Rightarrow> dflt | Some v \<Rightarrow> v)"

fun dict_set :: "('k \<times> 'v) list \<Rightarrow> 'k \<Rightarrow> 'v \<Rightarrow> ('k \<times> 'v) list" where
  "dict_set [] k v = [(k, v)]"
| "dict_set ((k', v') # d) k v =
     (if k' = k then (k', v) # d else (k', v') # dict_set d k v)"

text \<open>
  The same three operations when the key is a request value: the key is hashed first.
  A dictionary read from JSON has string keys only, and the program adds at most one
  other key to it, so two keys are the same for Python exactly when they are equal here.
\<close>

definition py_get :: "(pyval \<times> 'v) list \<Rightarrow> pyval \<Rightarrow> 'v \<Rightarrow> error + 'v" where
  "py_get d k dflt = (if hashable k then Inr (dict_get d k dflt) else Inl TypeError)"

definition py_contains :: "(pyval \<times> 'v) list \<Rightarrow> pyval \<Rightarrow> error + bool" where
  "py_contains d k = (if hashable k then Inr (map_of d k \<noteq> None) else Inl TypeError)"

definition py_setitem :: "(pyval \<times> 'v) list \<Rightarrow> pyval \<Rightarrow> 'v \<Rightarrow> error + (pyval \<times> 'v) list" where
  "py_setitem d k v = (if hashable k then Inr (dict_set d k v) else Inl TypeError)"

text \<open>\<^verbatim>\<open>d[k]\<close> read: a missing key raises \<^verbatim>\<open>KeyError\<close>.\<close>

definition py_getitem :: "(pyval \<times> 'v) list \<Rightarrow> pyval \<Rightarrow> error + 'v" where
  "py_getitem d k =
     (if hashable k then (case map_of d k of None \<Rightarrow> Inl KeyError | Some v \<Rightarrow> Inr v)
      else Inl TypeError)"

subsection \<open>The stored progress structure\<close>

text \<open>
  The column \<^verbatim>\<open>progress\<close> is a JSON object from module id to an object from topic id to
  the object with the keys \<^verbatim>\<open>completed\<close>, \<^verbatim>\<open>score\<close> and \<^verbatim>\<open>completedAt\<close>; its keys are strings.
  While a request is handled the dictionary read from it may receive a key that is not a
  string, since \<^verbatim>\<open>moduleId\<close> and \<^verbatim>\<open>topicId\<close> are used as they arrive. A lesson marker is the
  pair stored under \<^verbatim>\<open>moduleId\<close> and \<^verbatim>\<open>topicId\<close>. A timestamp is the text that
  \<^verbatim>\<open>datetime.now().isoformat()\<close> produced.
\<close>

type_synonym topic_status = "(string \<times> pyval) list"
type_synonym progress = "(string \<times> (string \<times> topic_status) list) list"
type_synonym current_progress = "(pyval \<times> (pyval \<times> topic_status) list) list"
type_synonym lesson = "pyval \<times> pyval"
type_synonym timestamp = string

text \<open>
  Line 158, \<^verbatim>\<open>user['progress'] or {}\<close>: the dictionary the driver built from the column, with
  its string keys; a \<^verbatim>\<open>NULL\<close> column reads as the empty dictionary.
\<close>

definition progress_or_empty :: "progress option \<Rightarrow> current_progress" where
  "progress_or_empty user_progress =
     (case user_progress of
        None \<Rightarrow> []
      | Some p \<Rightarrow> map (\<lambda>(m, topics). (PStr m, map (\<lambda>(t, st). (PStr t, st)) topics)) p)"

text \<open>
  The chain \<^verbatim>\<open>current_progress.get(module_id, {}).get(topic_id, {}).get(key, default)\<close>
  that lines 159, 165 and 166 share.
\<close>

definition topic_get :: "current_progress \<Rightarrow> pyval \<Rightarrow> pyval \<Rightarrow> string \<Rightarrow> pyval \<Rightarrow> error + pyval" where
  "topic_get cp module_id topic_id key dflt =
     (case py_get cp module_id [] of
        Inl ex \<Rightarrow> Inl ex
      | Inr topics \<Rightarrow>
          (case py_get topics topic_id [] of
             Inl ex \<Rightarrow> Inl ex
           | Inr st \<Rightarrow> Inr (dict_get st key dflt)))"

subsection \<open>The merge of a completion event (lines 158 to 172)\<close>

text \<open>
  Line 159. \<^verbatim>\<open>a and b\<close> yields \<^verbatim>\<open>a\<close> itself when \<^verbatim>\<open>a\<close> is false, without evaluating \<^verbatim>\<open>b\<close>.
\<close>

definition is_new_completion :: "current_progress \<Rightarrow> pyval \<Rightarrow> pyval \<Rightarrow> pyval \<Rightarrow> error + pyval" where
  "is_new_completion cp module_id topic_id completed =
     (if truthy completed
      then (case topic_get cp module_id topic_id ''completed'' (PBool False) of
              Inl ex \<Rightarrow> Inl ex
            | Inr stored \<Rightarrow> Inr (PBool (\<not> truthy stored)))
      else Inr completed)"

text \<open>Lines 161 and 162.\<close>

definition ensure_module :: "current_progress \<Rightarrow> pyval \<Rightarrow> error + current_progress" where
  "ensure_module cp module_id =
     (case py_contains cp module_id of
        Inl ex \<Rightarrow> Inl ex
      | Inr present \<Rightarrow> if \<not> present then py_setitem cp module_id [] else Inr cp)"

text \<open>
  Lines 164 to 166: the dictionary written for the topic, its values evaluated in the
  order of the source.
\<close>

definition new_topic_status ::
  "current_progress \<Rightarrow> pyval \<Rightarrow> pyval \<Rightarrow> pyval \<Rightarrow> pyval \<Rightarrow> timestamp \<Rightarrow> error + topic_status" where
  "new_topic_status cp module_id topic_id completed score now =
     (case (if score \<noteq> PNone then Inr score
            else topic_get cp module_id topic_id ''score'' (PInt 0)) of
        Inl ex \<Rightarrow> Inl ex
      | Inr score_value \<Rightarrow>
          (case (if truthy completed then Inr (PStr now)
                 else topic_get cp module_id topic_id ''completedAt'' PNone) of
             Inl ex \<Rightarrow> Inl ex
           | Inr completed_at \<Rightarrow>
               Inr [(''completed'', completed), (''score'', score_value),
                    (''completedAt'', completed_at)]))"

text \<open>
  Line 163, \<^verbatim>\<open>current_progress[module_id][topic_id] = status\<close>: the module's dictionary is
  read and the topic is set in it.
\<close>

definition write_topic ::
  "current_progress \<Rightarrow> pyval \<Rightarrow> pyval \<Rightarrow> topic_status \<Rightarrow> error + current_progress" where
  "write_topic cp module_id topic_id st =
     (case py_getitem cp module_id of
        Inl ex \<Rightarrow> Inl ex
      | Inr topics \<Rightarrow>
          (case py_setitem topics topic_id st of
             Inl ex \<Rightarrow> Inl ex
           | Inr topics' \<Rightarrow> py_setitem cp module_id topics'))"

text \<open>Line 169.\<close>

definition new_score :: "pyval \<Rightarrow> pyval \<Rightarrow> pyval" where
  "new_score is_new score = (if truthy is_new \<and> score \<noteq> PNone then score else PInt 0)"

text \<open>
  The whole block. \<open>user_progress\<close> and \<open>user_total_score\<close> are the two columns the
  \<^verbatim>\<open>SELECT\<close> returned; \<open>now\<close> is the clock reading of this call. The result is the
  dictionary, the total and the marker that lines 174 to 183 write, or the exception
  raised on the way.
\<close>

definition merge_progress ::
  "progress option \<Rightarrow> int \<Rightarrow> pyval \<Rightarrow> pyval \<Rightarrow> pyval \<Rightarrow> pyval \<Rightarrow> timestamp
     \<Rightarrow> error + (current_progress \<times> int \<times> lesson)" where
  "merge_progress user_progress user_total_score module_id topic_id completed score now =
     (let cp = progress_or_empty user_progress
      in case is_new_completion cp module_id topic_id completed of
           Inl ex \<Rightarrow> Inl ex
         | Inr is_new \<Rightarrow>
             (case ensure_module cp module_id of
                Inl ex \<Rightarrow> Inl ex
              | Inr cp1 \<Rightarrow>
                  (case new_topic_status cp1 module_id topic_id completed score now of
                     Inl ex \<Rightarrow> Inl ex
                   | Inr st \<Rightarrow>
                       (case write_topic cp1 module_id topic_id st of
                          Inl ex \<Rightarrow> Inl ex
                        | Inr cp2 \<Rightarrow>
                            (case py_add_int user_total_score (new_score is_new score) of
                               Inl ex \<Rightarrow> Inl ex
                             | Inr total_score \<Rightarrow>
                                 Inr (cp2, total_score, (module_id, topic_id)))))))"

subsection \<open>Writing the dictionary back as JSON\<close>

text \<open>\<^verbatim>\<open>str(n)\<close> for an integer.\<close>

fun str_nat :: "nat \<Rightarrow> string" where
  "str_nat n = (if n < 10 then [char_of (48 + n)] else str_nat (n div 10) @ [char_of (48 + n mod 10)])"

definition str_int :: "int \<Rightarrow> string" where
  "str_int i = (if i < 0 then CHR ''-'' # str_nat (nat (- i)) else str_nat (nat i))"

text \<open>
  \<^verbatim>\<open>json.dumps\<close> turns a key that is an integer, a boolean or \<^verbatim>\<open>None\<close> into a string and
  refuses any other key that is not a string.
\<close>

fun dumps_key :: "pyval \<Rightarrow> error + string" where
  "dumps_key (PStr s) = Inr s"
| "dumps_key (PInt n) = Inr (str_int n)"
| "dumps_key (PBool b) = Inr (if b then ''true'' else ''false'')"
| "dumps_key PNone = Inr ''null''"
| "dumps_key v = Inl TypeError"

text \<open>
  The object that comes back from the column after \<^verbatim>\<open>json.dumps\<close>: the items are written
  in order with their keys as strings, and where two keys have become the same string the
  later item's value stands.
\<close>

fun json_object :: "(string \<times> 'v) list \<Rightarrow> (pyval \<times> 'v) list \<Rightarrow> error + (string \<times> 'v) list" where
  "json_object acc [] = Inr acc"
| "json_object acc ((k, v) # d) =
     (case dumps_key k of
        Inl ex \<Rightarrow> Inl ex
      | Inr s \<Rightarrow> json_object (dict_set acc s v) d)"

fun dumps_progress :: "progress \<Rightarrow> current_progress \<Rightarrow> error + progress" where
  "dumps_progress acc [] = Inr acc"
| "dumps_progress acc ((m, topics) # cp) =
     (case dumps_key m of
        Inl ex \<Rightarrow> Inl ex
      | Inr s \<Rightarrow>
          (case json_object [] topics of
             Inl ex \<Rightarrow> Inl ex
           | Inr ts \<Rightarrow> dumps_progress (dict_set acc s ts) cp))"

subsection \<open>Names the module binds\<close>

text \<open>
  A name that a function never assigns is looked up among the module's globals and then
  among the builtins. The globals are the names bound by the imports, assignments and
  function definitions of \<^verbatim>\<open>src/app.py\<close>; of the builtins the constants are listed.
\<close>

datatype binding = Builtin pyval | Global string

definition module_globals :: "string list" where
  "module_globals =
     [''Flask'', ''jsonify'', ''request'', ''CORS'', ''firebase_admin'', ''auth'',
      ''credentials'', ''psycopg2'', ''RealDictCursor'', ''datetime'', ''json'', ''app'',
      ''cred'', ''DB_CONFIG'', ''get_db_connection'', ''home'', ''get_user_profile'',
      ''update_user_profile'', ''update_user_progress'']"

definition load_name :: "string \<Rightarrow> error + binding" where
  "load_name n =
     (if n \<in> set module_globals then Inr (Global n)
      else if n = ''None'' then Inr (Builtin PNone)
      else if n = ''True'' then Inr (Builtin (PBool True))
      else if n = ''False'' then Inr (Builtin (PBool False))
      else Inl (NameError n))"

text \<open>
  \<^verbatim>\<open>v is <name>\<close>: the name is evaluated first. A request value is never the object a
  module-level name denotes; it is \<^verbatim>\<open>None\<close>, \<^verbatim>\<open>True\<close> or \<^verbatim>\<open>False\<close> exactly when it equals
  that constant.
\<close>

definition py_is_name :: "pyval \<Rightarrow> string \<Rightarrow> error + bool" where
  "py_is_name v n =
     (case load_name n of
        Inl e \<Rightarrow> Inl e
      | Inr (Builtin c) \<Rightarrow> Inr (v = c)
      | Inr (Global g) \<Rightarrow> Inr False)"

subsection \<open>Strings\<close>

definition startswith :: "string \<Rightarrow> string \<Rightarrow> bool" where
  "startswith s p = (take (length p) s = p)"

text \<open>
  \<^verbatim>\<open>s.split(sep)\<close> scans from the left and cuts at every occurrence of \<^verbatim>\<open>sep\<close> that does
  not overlap the previous one; an empty separator raises \<^verbatim>\<open>ValueError\<close>.
\<close>

fun split_from :: "string \<Rightarrow> string \<Rightarrow> string \<Rightarrow> string list" where
  "split_from sep acc [] = [acc]"
| "split_from sep acc (c # cs) =
     (if sep \<noteq> [] \<and> startswith (c # cs) sep
      then acc # split_from sep [] (drop (length sep - 1) cs)
      else split_from sep (acc @ [c]) cs)"

definition py_split :: "string \<Rightarrow> string \<Rightarrow> error + string list" where
  "py_split s sep = (if sep = [] then Inl ValueError else Inr (split_from sep [] s))"

text \<open>\<^verbatim>\<open>xs[i]\<close> for an index that is not negative.\<close>

definition py_index :: "'a list \<Rightarrow> nat \<Rightarrow> error + 'a" where
  "py_index xs i = (if i < length xs then Inr (xs ! i) else Inl IndexError)"

subsection \<open>Requests, responses and the users table\<close>

record decoded_token =
  uid :: string
  token_email :: "string option"

record user_row =
  row_email :: string
  row_selected_avatar :: "string option"
  row_progress :: "progress option"
  row_total_score :: int
  row_created_at :: timestamp
  row_last_active_lesson :: "lesson option"

type_synonym database = "string \<rightharpoonup> user_row"

text \<open>What a handler does to the connection, in order.\<close>

datatype db_op = Connect | Select string | Update string | Insert string | Commit | Close

text \<open>
  The collaborators of a call: \<^verbatim>\<open>auth.verify_id_token\<close>, which returns the decoded token
  or raises, and the clock.
\<close>

record env =
  verify_id_token :: "string \<Rightarrow> error + decoded_token"
  clock :: timestamp

text \<open>
  The body of the progress request after \<^verbatim>\<open>data.get\<close>: each of the four keys holds the
  JSON value that was sent, and a key that is missing or \<^verbatim>\<open>null\<close> reads as \<^verbatim>\<open>None\<close>.
\<close>

record progress_body =
  body_moduleId :: pyval
  body_topicId :: pyval
  body_completed :: pyval
  body_score :: pyval

record profile_body =
  body_selectedAvatar :: "string option"
  body_email :: "string option"

text \<open>\<^verbatim>\<open>json_body\<close> is \<^verbatim>\<open>request.get_json()\<close>; it is \<^verbatim>\<open>None\<close> when the request carries no JSON.\<close>

record 'b request =
  authorization :: "string option"
  json_body :: "'b option"

text \<open>
  A response is a status and a payload: an error message, the text of a caught exception,
  or the row the statement returned (the columns chosen by each \<^verbatim>\<open>RETURNING\<close> clause are
  not told apart).
\<close>

datatype payload = ErrorMessage string | ExceptionText error | UserJson string user_row

record response =
  status :: nat
  body :: payload

record outcome =
  reply :: response
  store :: database
  trace :: "db_op list"

definition respond :: "nat \<Rightarrow> payload \<Rightarrow> database \<Rightarrow> db_op list \<Rightarrow> outcome" where
  "respond code p db ops = \<lparr>reply = \<lparr>status = code, body = p\<rparr>, store = db, trace = ops\<rparr>"

text \<open>\<^verbatim>\<open>except Exception as e: return jsonify({"error": str(e)}), 500\<close>\<close>

definition internal_error :: "error \<Rightarrow> database \<Rightarrow> db_op list \<Rightarrow> outcome" where
  "internal_error e db ops = respond 500 (ExceptionText e) db ops"

text \<open>\<^verbatim>\<open>not v\<close> for an optional string: \<^verbatim>\<open>None\<close> and the empty string are false.\<close>

definition str_truthy :: "string option \<Rightarrow> bool" where
  "str_truthy v = (case v of None \<Rightarrow> False | Some s \<Rightarrow> s \<noteq> [])"

subsection \<open>The access guard\<close>

text \<open>
  The first lines of each handler (34 to 40, 65 to 71 and 123 to 129) are the same text.
  The result is the exception raised, the response returned early, or the decoded token
  with which the handler goes on.
\<close>

datatype guard = Raised error | Rejected nat string | Passed decoded_token

definition access_guard :: "env \<Rightarrow> string option \<Rightarrow> string \<Rightarrow> guard" where
  "access_guard e auth_header userId =
     (case auth_header of
        None \<Rightarrow> Rejected 401 ''Missing or invalid Authorization header''
      | Some h \<Rightarrow>
          if h = [] \<or> \<not> startswith h ''Bearer ''
          then Rejected 401 ''Missing or invalid Authorization header''
          else (case py_split h ''Bearer '' of
                  Inl ex \<Rightarrow> Raised ex
                | Inr parts \<Rightarrow>
                    (case py_index parts 1 of
                       Inl ex \<Rightarrow> Raised ex
                     | Inr token \<Rightarrow>
                         (case verify_id_token e token of
                            Inl ex \<Rightarrow> Raised ex
                          | Inr decoded \<Rightarrow>
                              if uid decoded \<noteq> userId
                              then Rejected 403 ''Unauthorized: User ID does not match token''
                              else Passed decoded))))"

subsection \<open>The handlers\<close>

text \<open>
  Each handler takes the collaborators, the table, the request and the \<^verbatim>\<open>userId\<close> of the
  path, and returns the response, the table after the call and the operations issued on
  the connection. The connection itself never fails in the model. An exception anywhere in
  the \<^verbatim>\<open>try\<close> block ends in the \<^verbatim>\<open>except\<close> clause: nothing was committed, so the table is
  the one the call started with.
\<close>

text \<open>\<^verbatim>\<open>GET /api/users/<userId>/profile\<close>\<close>

definition get_user_profile :: "env \<Rightarrow> database \<Rightarrow> 'b request \<Rightarrow> string \<Rightarrow> outcome" where
  "get_user_profile e db req userId =
     (case access_guard e (authorization req) userId of
        Raised ex \<Rightarrow> internal_error ex db []
      | Rejected code msg \<Rightarrow> respond code (ErrorMessage msg) db []
      | Passed decoded \<Rightarrow>
          (case db userId of
             None \<Rightarrow> respond 404 (ErrorMessage ''User not found'') db [Connect, Select userId, Close]
           | Some user \<Rightarrow> respond 200 (UserJson userId user) db [Connect, Select userId, Close]))"

text \<open>
  \<^verbatim>\<open>POST /api/users/<userId>/profile\<close>. \<^verbatim>\<open>email or decoded_token.get('email', '')\<close> is the
  body's email when it is not empty, else the token's, else the empty string.
\<close>

definition insert_email :: "string option \<Rightarrow> decoded_token \<Rightarrow> string" where
  "insert_email email decoded =
     (if str_truthy email then (case email of None \<Rightarrow> [] | Some s \<Rightarrow> s)
      else (case token_email decoded of None \<Rightarrow> [] | Some s \<Rightarrow> s))"

definition update_user_profile :: "env \<Rightarrow> database \<Rightarrow> profile_body request \<Rightarrow> string \<Rightarrow> outcome" where
  "update_user_profile e db req userId =
     (case access_guard e (authorization req) userId of
        Raised ex \<Rightarrow> internal_error ex db []
      | Rejected code msg \<Rightarrow> respond code (ErrorMessage msg) db []
      | Passed decoded \<Rightarrow>
          (case json_body req of
             None \<Rightarrow> internal_error AttributeError db []
           | Some data \<Rightarrow>
               (let selected_avatar = body_selectedAvatar data;
                    email = body_email data
                in case db userId of
                     Some user_exists \<Rightarrow>
                       if \<not> str_truthy selected_avatar
                       then respond 400 (ErrorMessage ''selectedAvatar is required'') db
                              [Connect, Select userId]
                       else (let user = user_exists\<lparr>row_selected_avatar := selected_avatar\<rparr>
                             in respond 200 (UserJson userId user) (db(userId \<mapsto> user))
                                  [Connect, Select userId, Update userId, Commit, Close])
                   | None \<Rightarrow>
                       (let user = \<lparr>row_email = insert_email email decoded,
                                    row_selected_avatar = selected_avatar,
                                    row_progress = Some [],
                                    row_total_score = 0,
                                    row_created_at = clock e,
                                    row_last_active_lesson = None\<rparr>
                        in respond 200 (UserJson userId user) (db(userId \<mapsto> user))
                             [Connect, Select userId, Insert userId, Commit, Close]))))"

text \<open>
  \<^verbatim>\<open>PUT /api/users/<userId>/progress\<close>. Line 137 is
  \<^verbatim>\<open>if not module_id or not topic_id or completed is null\<close>: \<^verbatim>\<open>or\<close> evaluates its operands
  from the left and stops at the first true one, so the name \<^verbatim>\<open>null\<close> is looked up only
  when both identifiers are true values. The result is the exception, or the truth value
  of the condition.
\<close>

definition missing_fields :: "pyval \<Rightarrow> pyval \<Rightarrow> pyval \<Rightarrow> error + bool" where
  "missing_fields module_id topic_id completed =
     (if \<not> truthy module_id then Inr True
      else if \<not> truthy topic_id then Inr True
      else py_is_name completed ''null'')"

definition update_user_progress :: "env \<Rightarrow> database \<Rightarrow> progress_body request \<Rightarrow> string \<Rightarrow> outcome" where
  "update_user_progress e db req userId =
     (case access_guard e (authorization req) userId of
        Raised ex \<Rightarrow> internal_error ex db []
      | Rejected code msg \<Rightarrow> respond code (ErrorMessage msg) db []
      | Passed decoded \<Rightarrow>
          (case json_body req of
             None \<Rightarrow> internal_error AttributeError db []
           | Some data \<Rightarrow>
               (let module_id = body_moduleId data;
                    topic_id = body_topicId data;
                    completed = body_completed data;
                    score = body_score data
                in case missing_fields module_id topic_id completed of
                     Inl ex \<Rightarrow> internal_error ex db []
                   | Inr True \<Rightarrow>
                       respond 400 (ErrorMessage ''moduleId, topicId, and completed are required'') db []
                   | Inr False \<Rightarrow>
                       (case db userId of
                          None \<Rightarrow>
                            respond 404 (ErrorMessage ''User not found'') db
                              [Connect, Select userId, Close]
                        | Some user \<Rightarrow>
                            (case merge_progress (row_progress user) (row_total_score user)
                                    module_id topic_id completed score (clock e) of
                               Inl ex \<Rightarrow> internal_error ex db [Connect, Select userId]
                             | Inr (current_progress, total_score, last_active_lesson) \<Rightarrow>
                                 (case dumps_progress [] current_progress of
                                    Inl ex \<Rightarrow> internal_error ex db [Connect, Select userId]
                                  | Inr written \<Rightarrow>
                                      (let updated_user =
                                             user\<lparr>row_progress := Some written,
                                                  row_total_score := total_score,
                                                  row_last_active_lesson := Some last_active_lesson\<rparr>
                                       in respond 200 (UserJson userId updated_user)
                                            (db(userId \<mapsto> updated_user))
                                            [Connect, Select userId, Update userId, Commit, Close])))))))"

subsection \<open>Sequences of progress calls\<close>

text \<open>
  One call of the progress endpoint: the collaborators at the time of the call, the
  request and the \<^verbatim>\<open>userId\<close> of its path. A sequence of calls runs one after the other, each
  on the table the previous one left.
\<close>

record call =
  call_env :: env
  call_request :: "progress_body request"
  call_userId :: string

definition progress_call :: "database \<Rightarrow> call \<Rightarrow> database" where
  "progress_call db c = store (update_user_progress (call_env c) db (call_request c) (call_userId c))"

definition run_calls :: "database \<Rightarrow> call list \<Rightarrow> database" where
  "run_calls db cs = foldl progress_call db cs"

text \<open>The row that the \<^verbatim>\<open>INSERT\<close> of \<^verbatim>\<open>update_user_profile\<close> creates.\<close>

definition fresh_row :: "string \<Rightarrow> string option \<Rightarrow> timestamp \<Rightarrow> user_row" where
  "fresh_row email selected_avatar now =
     \<lparr>row_email = email, row_selected_avatar = selected_avatar,
      row_progress = Some [], row_total_score = 0,
      row_created_at = now, row_last_active_lesson = None\<rparr>"

text \<open>What the table holds for a user: the total, the marker, and a field of a topic.\<close>

definition total_score_of :: "database \<Rightarrow> string \<Rightarrow> int option" where
  "total_score_of db userId = map_option row_total_score (db userId)"

definition last_active_lesson_of :: "database \<Rightarrow> string \<Rightarrow> lesson option" where
  "last_active_lesson_of db userId =
     (case db userId of None \<Rightarrow> None | Some user \<Rightarrow> row_last_active_lesson user)"

definition topic_status_of :: "database \<Rightarrow> string \<Rightarrow> string \<Rightarrow> string \<Rightarrow> topic_status option" where
  "topic_status_of db userId module_id topic_id =
     (case db userId of
        None \<Rightarrow> None
      | Some user \<Rightarrow>
          (case row_progress user of
             None \<Rightarrow> None
           | Some p \<Rightarrow>
               (case map_of p module_id of
                  None \<Rightarrow> None
                | Some topics \<Rightarrow> map_of topics topic_id)))"

definition topic_field_of :: "database \<Rightarrow> string \<Rightarrow> string \<Rightarrow> string \<Rightarrow> string \<Rightarrow> pyval option" where
  "topic_field_of db userId module_id topic_id key =
     (case topic_status_of db userId module_id topic_id of
        None \<Rightarrow> None
      | Some st \<Rightarrow> map_of st key)"

subsection \<open>Sample data\<close>

text \<open>
  A verifier that knows two tokens; a table with one freshly created user; and a table in
  which that user has completed the topic \<open>t1\<close> of the module \<open>m1\<close> with score 5.
\<close>

definition demo_env :: env where
  "demo_env =
     \<lparr>verify_id_token =
        (\<lambda>token. if token = ''tok-u1'' then Inr \<lparr>uid = ''u1'', token_email = None\<rparr>
                 else if token = ''tok-u2'' then Inr \<lparr>uid = ''u2'', token_email = None\<rparr>
                 else Inl InvalidIdToken),
      clock = ''2025-01-03T08:30:00''\<rparr>"

definition demo_row :: user_row where
  "demo_row = fresh_row ''kid@example.org'' None ''2025-01-01T09:00:00''"

definition demo_db :: database where
  "demo_db = [''u1'' \<mapsto> demo_row]"

definition demo_progress :: progress where
  "demo_progress =
     [(''m1'', [(''t1'', [(''completed'', PBool True), (''score'', PInt 5),
                         (''completedAt'', PStr ''2025-01-02T10:00:00'')])])]"

definition demo_done_db :: database where
  "demo_done_db =
     [''u1'' \<mapsto> demo_row\<lparr>row_progress := Some demo_progress, row_total_score := 5,
                          row_last_active_lesson := Some (PStr ''m1'', PStr ''t1'')\<rparr>]"

definition demo_request :: "string \<Rightarrow> pyval \<Rightarrow> pyval \<Rightarrow> progress_body request" where
  "demo_request header completed score =
     \<lparr>authorization = Some header,
      json_body = Some \<lparr>body_moduleId = PStr ''m1'', body_topicId = PStr ''t1'',
                        body_completed = completed, body_score = score\<rparr>\<rparr>"

definition demo_call :: "pyval \<Rightarrow> pyval \<Rightarrow> call" where
  "demo_call completed score =
     \<lparr>call_env = demo_env,
      call_request = demo_request ''Bearer tok-u1'' completed score,
      call_userId = ''u1''\<rparr>"

section \<open>Properties\<close>

subsection \<open>Line 137 and what it leaves of a progress call\<close>

lemma load_name_null: "load_name ''null'' = Inl (NameError ''null'')"
  by (simp add: load_name_def module_globals_def)

lemma missing_fields_nonempty:
  "truthy module_id \<Longrightarrow> truthy topic_id \<Longrightarrow>
   missing_fields module_id topic_id completed = Inl (NameError ''null'')"
  by (simp add: missing_fields_def py_is_name_def load_name_null)

lemma missing_fields_empty:
  "\<not> truthy module_id \<or> \<not> truthy topic_id \<Longrightarrow>
   missing_fields module_id topic_id completed = Inr True"
  by (auto simp add: missing_fields_def)

text \<open>The condition of line 137 is never false: it is true or it raises.\<close>

lemma missing_fields_never_false: "missing_fields module_id topic_id completed \<noteq> Inr False"
  by (cases "truthy module_id"; cases "truthy topic_id")
     (simp_all add: missing_fields_nonempty missing_fields_empty)

lemma access_guard_status:
  "access_guard e hdr userId = Rejected code msg \<Longrightarrow> code = 401 \<or> code = 403"
  by (auto simp add: access_guard_def split: option.splits if_splits sum.splits)

text \<open>
  So no progress call goes beyond line 138: the table is the one the call started with,
  and no statement is issued.
\<close>

lemma progress_store_unchanged: "store (update_user_progress e db req userId) = db"
proof (cases "access_guard e (authorization req) userId")
  case (Raised ex)
  then show ?thesis
    by (simp add: update_user_progress_def internal_error_def respond_def)
next
  case (Rejected code msg)
  then show ?thesis
    by (simp add: update_user_progress_def respond_def)
next
  case (Passed decoded)
  show ?thesis
  proof (cases "json_body req")
    case None
    with Passed show ?thesis
      by (simp add: update_user_progress_def internal_error_def respond_def)
  next
    case (Some data)
    show ?thesis
    proof (cases "missing_fields (body_moduleId data) (body_topicId data) (body_completed data)")
      case (Inl ex)
      with Passed Some show ?thesis
        by (simp add: update_user_progress_def internal_error_def respond_def)
    next
      case (Inr missing)
      then have "missing"
        using missing_fields_never_false[of "body_moduleId data" "body_topicId data" "body_completed data"]
        by (cases missing) simp_all
      with Inr Passed Some show ?thesis
        by (simp add: update_user_progress_def respond_def)
    qed
  qed
qed

lemma progress_call_unchanged: "progress_call db c = db"
  by (simp add: progress_call_def progress_store_unchanged)

lemma run_calls_unchanged: "run_calls db cs = db"
  unfolding run_calls_def by (induction cs) (simp_all add: progress_call_unchanged)

lemma demo_guard_u1:
  "access_guard demo_env (Some ''Bearer tok-u1'') ''u1'' = Passed \<lparr>uid = ''u1'', token_email = None\<rparr>"
  by (simp add: access_guard_def demo_env_def startswith_def py_split_def py_index_def)

text \<open>What the sample user's own call with both identifiers is answered with.\<close>

lemma demo_request_reply:
  "reply (update_user_progress demo_env db (demo_request ''Bearer tok-u1'' completed score) ''u1'')
     = \<lparr>status = 500, body = ExceptionText (NameError ''null'')\<rparr>"
  by (simp add: update_user_progress_def demo_request_def demo_guard_u1 missing_fields_nonempty
        internal_error_def respond_def)

text \<open>
  Past the access guard and with a JSON object for a body, a progress update whose
  \<^verbatim>\<open>moduleId\<close> or \<^verbatim>\<open>topicId\<close> is missing or false is answered with 400 and the message of
  line 138.
\<close>

lemma missing_ids_rejected:
  assumes "access_guard e (authorization req) userId = Passed decoded"
    and "json_body req = Some data"
    and "\<not> truthy (body_moduleId data) \<or> \<not> truthy (body_topicId data)"
  shows "update_user_progress e db req userId
           = respond 400 (ErrorMessage ''moduleId, topicId, and completed are required'') db []"
  using assms
  by (simp add: update_user_progress_def missing_fields_empty)

subsection \<open>Validation of the progress request\<close>

text \<open>
  C3. A progress update whose body carries a non-empty \<^verbatim>\<open>moduleId\<close> and a non-empty
  \<^verbatim>\<open>topicId\<close> never reaches the merge or the \<^verbatim>\<open>UPDATE\<close>: the table is unchanged and no
  statement is issued, whatever the rest of the request is. Once the request is past the
  access guard, line 137 evaluates the unbound name \<^verbatim>\<open>null\<close>, the \<^verbatim>\<open>NameError\<close> is caught
  by the \<^verbatim>\<open>except\<close> clause, and the response is the 500 that carries its text.
\<close>

theorem progress_update_raises_on_null:
  assumes "json_body req = Some data"
    and "truthy (body_moduleId data)"
    and "truthy (body_topicId data)"
  shows "store (update_user_progress e db req userId) = db
       \<and> trace (update_user_progress e db req userId) = []
       \<and> status (reply (update_user_progress e db req userId)) \<in> {401, 403, 500}
       \<and> (\<forall>decoded. access_guard e (authorization req) userId = Passed decoded \<longrightarrow>
            reply (update_user_progress e db req userId)
              = \<lparr>status = 500, body = ExceptionText (NameError ''null'')\<rparr>)"
proof (cases "access_guard e (authorization req) userId")
  case (Raised ex)
  then show ?thesis
    by (simp add: update_user_progress_def internal_error_def respond_def)
next
  case (Rejected code msg)
  then show ?thesis
    using access_guard_status[OF Rejected]
    by (auto simp add: update_user_progress_def respond_def)
next
  case (Passed decoded)
  then show ?thesis
    using assms
    by (simp add: update_user_progress_def missing_fields_nonempty internal_error_def respond_def)
qed

text \<open>
  The instance: user \<open>u1\<close> sends, with a token of their own, a well-formed completion of
  \<open>m1/t1\<close> with score 5, and receives the 500.
\<close>

theorem progress_update_raises_on_null_witness:
  "json_body (demo_request ''Bearer tok-u1'' (PBool True) (PInt 5))
      = Some \<lparr>body_moduleId = PStr ''m1'', body_topicId = PStr ''t1'',
               body_completed = PBool True, body_score = PInt 5\<rparr>
   \<and> truthy (PStr ''m1'') \<and> truthy (PStr ''t1'')
   \<and> access_guard demo_env (Some ''Bearer tok-u1'') ''u1'' = Passed \<lparr>uid = ''u1'', token_email = None\<rparr>
   \<and> store (update_user_progress demo_env demo_db (demo_request ''Bearer tok-u1'' (PBool True) (PInt 5)) ''u1'') = demo_db
   \<and> reply (update_user_progress demo_env demo_db (demo_request ''Bearer tok-u1'' (PBool True) (PInt 5)) ''u1'')
        = \<lparr>status = 500, body = ExceptionText (NameError ''null'')\<rparr>"
proof -
  let ?data = "\<lparr>body_moduleId = PStr ''m1'', body_topicId = PStr ''t1'',
               body_completed = PBool True, body_score = PInt 5\<rparr>"
  have b: "json_body (demo_request ''Bearer tok-u1'' (PBool True) (PInt 5)) = Some ?data"
    by (simp add: demo_request_def)
  have m: "truthy (body_moduleId ?data)" and t: "truthy (body_topicId ?data)"
    by simp_all
  have g: "access_guard demo_env (authorization (demo_request ''Bearer tok-u1'' (PBool True) (PInt 5))) ''u1''
             = Passed \<lparr>uid = ''u1'', token_email = None\<rparr>"
    by (simp add: demo_request_def demo_guard_u1)
  show ?thesis
    using progress_update_raises_on_null[OF b m t, of demo_env demo_db "''u1''"] b g demo_guard_u1
    by simp
qed

text \<open>
  C4. The specification asks for 400 whenever \<^verbatim>\<open>completed\<close> is missing. The program answers 400
  only when an identifier is missing or empty. At the request of user \<open>u1\<close> that carries
  both identifiers and no \<^verbatim>\<open>completed\<close>, the check written for it on line 137,
  \<^verbatim>\<open>completed is null\<close>, raises \<^verbatim>\<open>NameError\<close>, and the answer is 500 with its text.
\<close>

theorem completed_missing_answers_500:
  "update_user_progress demo_env demo_db (demo_request ''Bearer tok-u1'' PNone PNone) ''u1''
     = respond 500 (ExceptionText (NameError ''null'')) demo_db []"
  by (simp add: update_user_progress_def demo_request_def demo_guard_u1 missing_fields_nonempty
        internal_error_def)

subsection \<open>What a progress call leaves in the table\<close>



text \<open>
  C9. From a freshly created record, after any sequence of progress calls, \<^verbatim>\<open>totalScore\<close>
  is an integer that is not negative, and after one more call it is not less than before.
\<close>

theorem total_score_never_decreases:
  assumes "db userId = Some (fresh_row email selected_avatar created)"
  shows "\<exists>before after.
           total_score_of (run_calls db cs) userId = Some before
           \<and> total_score_of (progress_call (run_calls db cs) c) userId = Some after
           \<and> 0 \<le> before \<and> before \<le> after"
  using assms
  by (simp add: progress_call_unchanged run_calls_unchanged total_score_of_def fresh_row_def)

text \<open>
  The instance: on the fresh row of user \<open>u1\<close>, two completions with the score -5 leave the
  total at 0.
\<close>

theorem total_score_never_decreases_witness:
  "demo_db ''u1'' = Some (fresh_row ''kid@example.org'' None ''2025-01-01T09:00:00'')
   \<and> total_score_of (run_calls demo_db [demo_call (PBool True) (PInt (- 5))]) ''u1'' = Some 0
   \<and> total_score_of
        (progress_call (run_calls demo_db [demo_call (PBool True) (PInt (- 5))])
           (demo_call (PBool True) (PInt (- 5)))) ''u1'' = Some 0"
proof -
  have fresh: "demo_db ''u1'' = Some (fresh_row ''kid@example.org'' None ''2025-01-01T09:00:00'')"
    by (simp add: demo_db_def demo_row_def)
  have zero: "total_score_of demo_db ''u1'' = Some 0"
    by (simp add: total_score_of_def fresh fresh_row_def)
  obtain before after where
    b: "total_score_of (run_calls demo_db [demo_call (PBool True) (PInt (- 5))]) ''u1'' = Some before"
    and a: "total_score_of
              (progress_call (run_calls demo_db [demo_call (PBool True) (PInt (- 5))])
                 (demo_call (PBool True) (PInt (- 5)))) ''u1'' = Some after"
    using total_score_never_decreases[where db = demo_db and userId = "''u1''"
            and cs = "[demo_call (PBool True) (PInt (- 5))]"
            and c = "demo_call (PBool True) (PInt (- 5))", OF fresh]
    by blast
  have "before = 0"
    using b zero by (simp add: run_calls_unchanged)
  moreover have "after = 0"
    using a zero by (simp add: run_calls_unchanged progress_call_unchanged)
  ultimately show ?thesis
    using fresh a b by simp
qed

subsection \<open>What the merge was written to do, and the calls that do not do it\<close>

text \<open>
  Each of the following evaluates the program at a call of user \<open>u1\<close> that carries their
  own token and both identifiers. Such a call is stopped by the \<^verbatim>\<open>NameError\<close> of line 137
  and writes nothing, so what lines 158 to 183 were written to do does not happen.
\<close>

lemma demo_db_total: "total_score_of demo_db ''u1'' = Some 0"
  by (simp add: total_score_of_def demo_db_def demo_row_def fresh_row_def)

lemma demo_done_db_total: "total_score_of demo_done_db ''u1'' = Some 5"
  by (simp add: total_score_of_def demo_done_db_def)

text \<open>
  C1. The specification has the completion of a topic with score 10, submitted twice, raise
  \<^verbatim>\<open>totalScore\<close> by 10 exactly once. In the program both submissions are answered with 500
  and \<^verbatim>\<open>totalScore\<close> stays 0: the score is credited not once but never.
\<close>

theorem replayed_completion_never_credited:
  "reply (update_user_progress demo_env demo_db
            (demo_request ''Bearer tok-u1'' (PBool True) (PInt 10)) ''u1'')
     = \<lparr>status = 500, body = ExceptionText (NameError ''null'')\<rparr>
   \<and> total_score_of demo_db ''u1'' = Some 0
   \<and> total_score_of
        (run_calls demo_db [demo_call (PBool True) (PInt 10), demo_call (PBool True) (PInt 10)])
        ''u1'' = Some 0"
  by (simp add: demo_request_reply run_calls_unchanged demo_db_total)

text \<open>
  C5. The specification has a second completion with score 9 of the topic \<open>m1/t1\<close>, stored as
  completed with score 5, overwrite the stored score with 9. In the program the call is
  answered with 500 and the stored score is still 5 (and the total still 5).
\<close>

theorem recompletion_leaves_stored_score:
  "update_user_progress demo_env demo_done_db
       (demo_request ''Bearer tok-u1'' (PBool True) (PInt 9)) ''u1''
     = respond 500 (ExceptionText (NameError ''null'')) demo_done_db []
   \<and> topic_field_of
        (store (update_user_progress demo_env demo_done_db
                  (demo_request ''Bearer tok-u1'' (PBool True) (PInt 9)) ''u1''))
        ''u1'' ''m1'' ''t1'' ''score'' = Some (PInt 5)
   \<and> total_score_of
        (store (update_user_progress demo_env demo_done_db
                  (demo_request ''Bearer tok-u1'' (PBool True) (PInt 9)) ''u1''))
        ''u1'' = Some 5"
proof -
  have "update_user_progress demo_env demo_done_db
          (demo_request ''Bearer tok-u1'' (PBool True) (PInt 9)) ''u1''
        = respond 500 (ExceptionText (NameError ''null'')) demo_done_db []"
    by (simp add: update_user_progress_def demo_request_def demo_guard_u1 missing_fields_nonempty
          internal_error_def)
  moreover have "topic_field_of demo_done_db ''u1'' ''m1'' ''t1'' ''score'' = Some (PInt 5)"
    by (simp add: topic_field_of_def topic_status_of_def demo_done_db_def demo_progress_def)
  ultimately show ?thesis
    by (simp add: respond_def demo_done_db_total)
qed

text \<open>
  C6. The specification has every valid progress call set \<^verbatim>\<open>lastActiveLesson\<close> to the event's
  module and topic. In the program the call of user \<open>u1\<close> for \<open>m1/t1\<close> with \<^verbatim>\<open>completed\<close>
  false is answered with 500 and the marker of the fresh row is still absent.
\<close>

theorem valid_call_leaves_last_active_lesson:
  "reply (update_user_progress demo_env demo_db
            (demo_request ''Bearer tok-u1'' (PBool False) PNone) ''u1'')
     = \<lparr>status = 500, body = ExceptionText (NameError ''null'')\<rparr>
   \<and> last_active_lesson_of
        (store (update_user_progress demo_env demo_db
                  (demo_request ''Bearer tok-u1'' (PBool False) PNone) ''u1''))
        ''u1'' = None"
  by (simp add: demo_request_reply progress_store_unchanged last_active_lesson_of_def
        demo_db_def demo_row_def fresh_row_def)

text \<open>
  C7. The specification has an event for a pair not yet in the progress add exactly one entry at
  that pair. In the program the call of user \<open>u1\<close> for the unseen \<open>m1/t1\<close>, completed with
  score 7, is answered with 500; the progress of the fresh row is still the empty object
  and the pair has no entry.
\<close>

theorem unseen_topic_not_added:
  "reply (update_user_progress demo_env demo_db
            (demo_request ''Bearer tok-u1'' (PBool True) (PInt 7)) ''u1'')
     = \<lparr>status = 500, body = ExceptionText (NameError ''null'')\<rparr>
   \<and> map_option row_progress
        (store (update_user_progress demo_env demo_db
                  (demo_request ''Bearer tok-u1'' (PBool True) (PInt 7)) ''u1'') ''u1'')
       = Some (Some [])
   \<and> topic_status_of
        (store (update_user_progress demo_env demo_db
                  (demo_request ''Bearer tok-u1'' (PBool True) (PInt 7)) ''u1''))
        ''u1'' ''m1'' ''t1'' = None"
  by (simp add: demo_request_reply progress_store_unchanged topic_status_of_def
        demo_db_def demo_row_def fresh_row_def)

text \<open>
  C10. The specification has an event with \<^verbatim>\<open>completed\<close> false reset the stored flag of a
  completed topic, and a following completion with a score credit the topic a second
  time. In the program, on \<open>m1/t1\<close> stored as completed with score 5 and total 5, the two
  calls leave the stored flag true and the total at 5.
\<close>

theorem uncompletion_leaves_flag_and_total:
  "topic_field_of demo_done_db ''u1'' ''m1'' ''t1'' ''completed'' = Some (PBool True)
   \<and> topic_field_of (run_calls demo_done_db [demo_call (PBool False) PNone])
        ''u1'' ''m1'' ''t1'' ''completed'' = Some (PBool True)
   \<and> total_score_of
        (run_calls demo_done_db [demo_call (PBool False) PNone, demo_call (PBool True) (PInt 5)])
        ''u1'' = Some 5"
proof -
  have "topic_field_of demo_done_db ''u1'' ''m1'' ''t1'' ''completed'' = Some (PBool True)"
    by (simp add: topic_field_of_def topic_status_of_def demo_done_db_def demo_progress_def)
  then show ?thesis
    by (simp add: run_calls_unchanged demo_done_db_total)
qed

subsection \<open>Outcomes of the access guard\<close>

lemma split_from_not_Nil: "split_from sep acc s \<noteq> []"
  by (induction sep acc s rule: split_from.induct) auto

lemma startswith_Cons: "sep \<noteq> [] \<Longrightarrow> startswith h sep \<Longrightarrow> \<exists>c cs. h = c # cs"
  by (cases h) (auto simp add: startswith_def)

text \<open>
  A header that starts with the separator splits into the empty string and the pieces of
  what follows the separator, so index 1 exists.
\<close>

lemma split_from_prefix:
  assumes "sep \<noteq> []" and "startswith h sep"
  shows "split_from sep [] h = [] # split_from sep [] (drop (length sep) h)"
proof -
  obtain c cs where h: "h = c # cs"
    using startswith_Cons[OF assms] by blast
  have "drop (length sep - 1) cs = drop (length sep) (c # cs)"
    using assms(1) by (cases sep) simp_all
  then show ?thesis
    using assms by (simp add: h)
qed

lemma bearer_token_exists:
  assumes "startswith h ''Bearer ''"
  shows "\<exists>parts token. py_split h ''Bearer '' = Inr parts \<and> py_index parts 1 = Inr token"
proof -
  have ne: "''Bearer '' \<noteq> []"
    by simp
  obtain x xs where rest: "split_from ''Bearer '' [] (drop (length ''Bearer '') h) = x # xs"
    using split_from_not_Nil[of "''Bearer ''" "[]" "drop (length ''Bearer '') h"]
    by (cases "split_from ''Bearer '' [] (drop (length ''Bearer '') h)") auto
  have "split_from ''Bearer '' [] h = [] # x # xs"
    using split_from_prefix[OF ne assms] rest by simp
  then show ?thesis
    by (simp add: py_split_def py_index_def)
qed

lemma demo_guard_other:
  "access_guard demo_env (Some ''Bearer tok-u2'') ''u1''
     = Rejected 403 ''Unauthorized: User ID does not match token''"
  by (simp add: access_guard_def demo_env_def startswith_def py_split_def py_index_def)

text \<open>
  C8, as the code has it, for the three per-user handlers. A request whose
  \<^verbatim>\<open>Authorization\<close> header is missing, empty or does not start with \<^verbatim>\<open>Bearer \<close> is answered
  with 401. Otherwise the header has a token at index 1 of its split, and the guard
  follows the verifier: when the verifier raises, the exception is the outcome (and the
  handler answers 500 with its text); when it returns a decoded token, the guard lets the
  call go on if and only if the token's \<^verbatim>\<open>uid\<close> equals the \<^verbatim>\<open>userId\<close> of the path, and answers
  403 otherwise. Whenever the guard does not let the call go on, each handler returns the
  guard's answer, the table is the one it was and no statement is issued; when it does,
  the profile read goes on to its \<^verbatim>\<open>SELECT\<close>.
\<close>

theorem access_guard_outcomes:
  assumes "authorization rq1 = hdr" and "authorization rq2 = hdr" and "authorization rq3 = hdr"
  shows "(\<not> (\<exists>h. hdr = Some h \<and> startswith h ''Bearer '') \<longrightarrow>
            access_guard e hdr userId = Rejected 401 ''Missing or invalid Authorization header'')
       \<and> (\<forall>h. hdr = Some h \<and> startswith h ''Bearer '' \<longrightarrow>
            (\<exists>parts token. py_split h ''Bearer '' = Inr parts \<and> py_index parts 1 = Inr token
               \<and> access_guard e hdr userId
                   = (case verify_id_token e token of
                        Inl ex \<Rightarrow> Raised ex
                      | Inr decoded \<Rightarrow>
                          if uid decoded = userId then Passed decoded
                          else Rejected 403 ''Unauthorized: User ID does not match token'')))
       \<and> (\<forall>ex. access_guard e hdr userId = Raised ex \<longrightarrow>
            get_user_profile e db rq1 userId = internal_error ex db []
            \<and> update_user_profile e db rq2 userId = internal_error ex db []
            \<and> update_user_progress e db rq3 userId = internal_error ex db [])
       \<and> (\<forall>code msg. access_guard e hdr userId = Rejected code msg \<longrightarrow>
            get_user_profile e db rq1 userId = respond code (ErrorMessage msg) db []
            \<and> update_user_profile e db rq2 userId = respond code (ErrorMessage msg) db []
            \<and> update_user_progress e db rq3 userId = respond code (ErrorMessage msg) db [])
       \<and> (\<forall>decoded. access_guard e hdr userId = Passed decoded \<longrightarrow>
            trace (get_user_profile e db rq1 userId) = [Connect, Select userId, Close])"
proof -
  have missing: "access_guard e hdr userId = Rejected 401 ''Missing or invalid Authorization header''"
    if "\<not> (\<exists>h. hdr = Some h \<and> startswith h ''Bearer '')"
    using that by (cases hdr) (auto simp add: access_guard_def)
  have bearer: "\<exists>parts token. py_split h ''Bearer '' = Inr parts \<and> py_index parts 1 = Inr token
               \<and> access_guard e hdr userId
                   = (case verify_id_token e token of
                        Inl ex \<Rightarrow> Raised ex
                      | Inr decoded \<Rightarrow>
                          if uid decoded = userId then Passed decoded
                          else Rejected 403 ''Unauthorized: User ID does not match token'')"
    if h: "hdr = Some h \<and> startswith h ''Bearer ''" for h
  proof -
    obtain parts token where pt: "py_split h ''Bearer '' = Inr parts" "py_index parts 1 = Inr token"
      using bearer_token_exists h by blast
    have "h \<noteq> []"
      using h by (auto simp add: startswith_def)
    then have "access_guard e hdr userId
                 = (case verify_id_token e token of
                      Inl ex \<Rightarrow> Raised ex
                    | Inr decoded \<Rightarrow>
                        if uid decoded = userId then Passed decoded
                        else Rejected 403 ''Unauthorized: User ID does not match token'')"
      using h pt by (simp add: access_guard_def split: sum.splits)
    with pt show ?thesis
      by blast
  qed
  have raised: "get_user_profile e db rq1 userId = internal_error ex db []
            \<and> update_user_profile e db rq2 userId = internal_error ex db []
            \<and> update_user_progress e db rq3 userId = internal_error ex db []"
    if "access_guard e hdr userId = Raised ex" for ex
    using that assms
    by (simp add: get_user_profile_def update_user_profile_def update_user_progress_def)
  have rejected: "get_user_profile e db rq1 userId = respond code (ErrorMessage msg) db []
            \<and> update_user_profile e db rq2 userId = respond code (ErrorMessage msg) db []
            \<and> update_user_progress e db rq3 userId = respond code (ErrorMessage msg) db []"
    if "access_guard e hdr userId = Rejected code msg" for code msg
    using that assms
    by (simp add: get_user_profile_def update_user_profile_def update_user_progress_def)
  have passed: "trace (get_user_profile e db rq1 userId) = [Connect, Select userId, Close]"
    if "access_guard e hdr userId = Passed decoded" for decoded
    using that assms
    by (simp add: get_user_profile_def respond_def split: option.splits)
  show ?thesis
    using missing bearer raised rejected passed by blast
qed

text \<open>
  The instance: user \<open>u2\<close>'s token on user \<open>u1\<close>'s progress path is answered with 403 and
  nothing is read or written.
\<close>

theorem access_guard_outcomes_witness:
  "authorization (demo_request ''Bearer tok-u2'' (PBool True) (PInt 5)) = Some ''Bearer tok-u2''
   \<and> access_guard demo_env (Some ''Bearer tok-u2'') ''u1''
        = Rejected 403 ''Unauthorized: User ID does not match token''
   \<and> update_user_progress demo_env demo_db (demo_request ''Bearer tok-u2'' (PBool True) (PInt 5)) ''u1''
        = respond 403 (ErrorMessage ''Unauthorized: User ID does not match token'') demo_db []"
proof -
  let ?rq = "demo_request ''Bearer tok-u2'' (PBool True) (PInt 5)"
  have a: "authorization ?rq = Some ''Bearer tok-u2''"
    by (simp add: demo_request_def)
  have b: "authorization \<lparr>authorization = Some ''Bearer tok-u2'',
                           json_body = (None :: profile_body option)\<rparr> = Some ''Bearer tok-u2''"
    by simp
  have "update_user_progress demo_env demo_db ?rq ''u1''
        = respond 403 (ErrorMessage ''Unauthorized: User ID does not match token'') demo_db []"
    using access_guard_outcomes[OF a b a, of demo_env "''u1''" demo_db] demo_guard_other
    by blast
  then show ?thesis
    by (intro conjI a demo_guard_other)
qed

text \<open>
  C8 as it is written fails on a token that the verifier rejects: the request carries a
  well-formed bearer header and no valid token, and the profile read answers it with 500,
  not 401.
\<close>

theorem rejected_token_counterexample:
  "get_user_profile demo_env demo_db
     \<lparr>authorization = Some ''Bearer expired'', json_body = (None :: unit option)\<rparr> ''u1''
     = respond 500 (ExceptionText InvalidIdToken) demo_db []"
  by (simp add: get_user_profile_def access_guard_def demo_env_def startswith_def py_split_def
        py_index_def internal_error_def)

end
